theory Spec2Isabelle
  imports Main "HOL-Library.Sublist" "HOL-Library.AList"
begin

section \<open>Python strings\<close>

text \<open>
  A Python \<open>str\<close> is a sequence of Unicode code points, and \<open>len\<close>, slicing and
  \<open>split\<close> count code points. It is modelled as a list of code points, so that the
  markers U+1F7E2 (green circle) and U+1F534 (red circle) of the response parser are one
  character each. ASCII literals are written \<open>str ''...''\<close>.
\<close>

type_synonym pystr = "nat list"

abbreviation str :: "string \<Rightarrow> pystr" where
  "str s \<equiv> map of_char s"

definition green_circle :: nat where
  "green_circle = 128994"

definition red_circle :: nat where
  "red_circle = 128308"

text \<open>
  \<open>str.isspace\<close> for one code point: the characters that \<open>str.split()\<close> and
  \<open>str.strip()\<close> treat as whitespace.
\<close>

definition isspace :: "nat \<Rightarrow> bool" where
  "isspace c \<longleftrightarrow>
     (9 \<le> c \<and> c \<le> 13) \<or> (28 \<le> c \<and> c \<le> 32) \<or> c = 133 \<or> c = 160 \<or> c = 5760 \<or>
     (8192 \<le> c \<and> c \<le> 8202) \<or> c = 8232 \<or> c = 8233 \<or> c = 8239 \<or> c = 8287 \<or> c = 12288"

text \<open>
  \<open>str.lower\<close> depends on the Unicode case-mapping tables, which are not part of the
  repository: every function that lower-cases takes the mapping as its first argument
  \<open>lw\<close>. \<open>ascii_lower\<close> is that mapping on texts whose cased letters are all ASCII.
\<close>

definition ascii_lower :: "pystr \<Rightarrow> pystr" where
  "ascii_lower s = map (\<lambda>c. if 65 \<le> c \<and> c \<le> 90 then c + 32 else c) s"

text \<open>\<open>s.strip()\<close>\<close>

definition strip :: "pystr \<Rightarrow> pystr" where
  "strip s = rev (dropWhile isspace (rev (dropWhile isspace s)))"

text \<open>\<open>s.split()\<close>: the maximal runs of non-whitespace characters.\<close>

function split_ws :: "pystr \<Rightarrow> pystr list" where
  "split_ws [] = []"
| "split_ws (c # cs) =
     (if isspace c then split_ws cs
      else takeWhile (\<lambda>x. \<not> isspace x) (c # cs) # split_ws (dropWhile (\<lambda>x. \<not> isspace x) cs))"
  by pat_completeness auto
termination
  by (relation "measure length") (auto simp: le_imp_less_Suc length_dropWhile_le)

text \<open>
  \<open>s.split(sep)\<close> for a non-empty separator: the pieces between the non-overlapping
  occurrences of \<open>sep\<close>, found from the left. Every call of the source passes a
  non-empty literal.
\<close>

fun split_sep :: "pystr \<Rightarrow> pystr \<Rightarrow> pystr list" where
  "split_sep sep [] = [[]]"
| "split_sep sep (c # cs) =
     (if sep \<noteq> [] \<and> prefix sep (c # cs) then [] # split_sep sep (drop (length sep - 1) cs)
      else (case split_sep sep cs of [] \<Rightarrow> [[c]] | p # ps \<Rightarrow> (c # p) # ps))"

text \<open>\<open>sep.join(xs)\<close>\<close>

fun join :: "pystr \<Rightarrow> pystr list \<Rightarrow> pystr" where
  "join sep [] = []"
| "join sep [x] = x"
| "join sep (x # y # ys) = x @ sep @ join sep (y # ys)"

text \<open>\<open>s.replace(old, new)\<close> for a non-empty \<open>old\<close>\<close>

fun replace :: "pystr \<Rightarrow> pystr \<Rightarrow> pystr \<Rightarrow> pystr" where
  "replace old new [] = []"
| "replace old new (c # cs) =
     (if old \<noteq> [] \<and> prefix old (c # cs) then new @ replace old new (drop (length old - 1) cs)
      else c # replace old new cs)"

text \<open>\<open>sub in s\<close>\<close>

fun contains :: "pystr \<Rightarrow> pystr \<Rightarrow> bool" where
  "contains sub [] = (sub = [])"
| "contains sub (c # cs) = (prefix sub (c # cs) \<or> contains sub cs)"

section \<open>The model response parser\<close>

text \<open>
  \<open>InfineonIntelligenceAnalyzer._parse_analysis\<close>. The result dictionary of the source
  has the keys Date, Source, Key insights, Signal and Risk (and the scratch key
  \<open>_full_insights\<close>, which is written and never read).
\<close>

record analysis_record =
  Date :: pystr
  Source :: pystr
  Key_insights :: pystr
  Signal :: pystr
  Risk :: pystr

datatype capture = SecKeyInsights | SecSignal | SecRisk

text \<open>The state of the line loop: the result so far and the two loop variables.\<close>

record scan_state =
  result :: analysis_record
  current_section :: "capture option"
  section_content :: "pystr list"

datatype py_exn = AttributeError

text \<open>
  The line filter that the source repeats three times:
  \<^verbatim>\<open>for line in lines: line = line.strip(); if line and not line.lower().startswith(h) ...\<close>
  for every header \<open>h\<close> of \<open>hs\<close>.
\<close>

definition drop_header_lines :: "(pystr \<Rightarrow> pystr) \<Rightarrow> pystr list \<Rightarrow> pystr list \<Rightarrow> pystr list" where
  "drop_header_lines lw hs ls =
     filter (\<lambda>l. l \<noteq> [] \<and> (\<forall>h \<in> set hs. \<not> prefix h (lw l))) (map strip ls)"

text \<open>The body of the loop over the lines of the response (source lines 694 to 731).\<close>

definition scan_line :: "(pystr \<Rightarrow> pystr) \<Rightarrow> scan_state \<Rightarrow> pystr \<Rightarrow> scan_state" where
  "scan_line lw st raw =
     (let line = strip raw in
      if line = [] then st
      else if prefix (str ''date:'') (lw line) then
        st\<lparr>result := (result st)\<lparr>Date :=
             strip (replace (str ''date:'') [] (replace (str ''Date:'') [] line))\<rparr>\<rparr>
      else if prefix (str ''key insights:'') (lw line) then
        st\<lparr>current_section := Some SecKeyInsights, section_content := []\<rparr>
      else if prefix (str ''signal:'') (lw line) then
        st\<lparr>current_section := Some SecSignal, section_content := []\<rparr>
      else if prefix (str ''risk:'') (lw line) then
        st\<lparr>current_section := Some SecRisk, section_content := []\<rparr>
      else
        (case current_section st of
           None \<Rightarrow> st
         | Some sec \<Rightarrow>
             (let content = section_content st @ [line];
                  st' = st\<lparr>section_content := content\<rparr>
              in case sec of
                   SecKeyInsights \<Rightarrow>
                     st'\<lparr>result := (result st)\<lparr>Key_insights :=
                          strip (join (str '' '')
                            (drop_header_lines lw [str ''date:'', str ''key insights:'']
                               (split_sep (str [CHR 0x0A]) (join (str '' '') content))))\<rparr>\<rparr>
                 | SecSignal \<Rightarrow>
                     st'\<lparr>result := (result st)\<lparr>Signal := join (str '' '') content\<rparr>\<rparr>
                 | SecRisk \<Rightarrow>
                     st'\<lparr>result := (result st)\<lparr>Risk := join (str '' '') content\<rparr>\<rparr>)))"

text \<open>
  The 200-word limit (source lines 749 to 763, and again 874 to 888): more than 200 words
  are cut to the first 200; if the cut text has a period, the text after its last period is
  dropped and the rest is joined again with a period and a space; otherwise three periods
  are appended.
\<close>

definition limit_words :: "pystr \<Rightarrow> pystr" where
  "limit_words s =
     (let words = split_ws s in
      if length words > 200 then
        (let truncated = join (str '' '') (take 200 words);
             sentences = split_sep (str ''.'') truncated
         in if length sentences > 1 then join (str ''. '') (butlast sentences) @ str ''.''
            else truncated @ str ''...'')
      else join (str '' '') words)"

text \<open>First clean-up of the captured narrative (source lines 734 to 763).\<close>

definition clean_insights :: "(pystr \<Rightarrow> pystr) \<Rightarrow> analysis_record \<Rightarrow> analysis_record" where
  "clean_insights lw r =
     (if Key_insights r \<noteq> [] then
        (let cleaned = join (str '' '')
               (drop_header_lines lw [str ''date:'', str ''key insights:'']
                  (split_sep (str [CHR 0x0A]) (Key_insights r)));
             cleaned = strip (replace (str ''key insights:'') [] (replace (str ''Key insights:'') []
                         (replace (str ''date:'') [] (replace (str ''Date:'') [] cleaned))))
         in r\<lparr>Key_insights := limit_words (strip cleaned)\<rparr>)
      else r)"

text \<open>Source lines 765 to 773.\<close>

definition normalize_signal :: "(pystr \<Rightarrow> pystr) \<Rightarrow> analysis_record \<Rightarrow> analysis_record" where
  "normalize_signal lw r =
     (if Signal r \<noteq> [] then
        (let signal_lower = lw (Signal r) in
         if contains (str ''positive'') signal_lower then r\<lparr>Signal := str ''Positive''\<rparr>
         else if contains (str ''negative'') signal_lower then r\<lparr>Signal := str ''Negative''\<rparr>
         else r\<lparr>Signal := str ''Neutral''\<rparr>)
      else r)"

text \<open>
  The keyword search in the whole response (source lines 786 to 806), with the first
  sentence, cut to 200 characters, as narrative.
\<close>

definition full_text_fallback :: "(pystr \<Rightarrow> pystr) \<Rightarrow> pystr \<Rightarrow> analysis_record \<Rightarrow> analysis_record" where
  "full_text_fallback lw analysis_text r =
     (if Key_insights r = [] \<and> Signal r = [] \<and> Risk r = [] then
        (let text_lower = lw analysis_text;
             r1 = (if contains (str ''positive'') text_lower then r\<lparr>Signal := str ''Positive''\<rparr>
                   else if contains (str ''negative'') text_lower then r\<lparr>Signal := str ''Negative''\<rparr>
                   else r\<lparr>Signal := str ''Neutral''\<rparr>);
             r2 = (if contains (str ''high'') text_lower \<and> contains (str ''risk'') text_lower
                   then r1\<lparr>Risk := str ''High''\<rparr>
                   else if contains (str ''medium'') text_lower \<and> contains (str ''risk'') text_lower
                   then r1\<lparr>Risk := str ''Medium''\<rparr>
                   else r1\<lparr>Risk := str ''Low''\<rparr>)
         in case split_sep (str ''.'') analysis_text of
              [] \<Rightarrow> r2
            | s0 # _ \<Rightarrow>
                r2\<lparr>Key_insights := (if length s0 > 200 then take 200 s0 @ str ''...'' else s0)\<rparr>)
      else r)"

text \<open>
  The search for the markers of the requested output format in the whole response
  (source lines 809 to 845, and again 891 to 916): each field is set only if it is empty.
\<close>

definition marker_signal :: "pystr \<Rightarrow> pystr" where
  "marker_signal text_lower =
     (if contains (green_circle # str '' positive'') text_lower
         \<or> contains (str ''signal: '' @ green_circle # str '' positive'') text_lower
      then str ''Positive''
      else if contains (red_circle # str '' negative'') text_lower
         \<or> contains (str ''signal: '' @ red_circle # str '' negative'') text_lower
      then str ''Negative''
      else if contains (str ''positive'') text_lower \<and> contains (str ''signal:'') text_lower
      then str ''Positive''
      else if contains (str ''negative'') text_lower \<and> contains (str ''signal:'') text_lower
      then str ''Negative''
      else str ''Neutral'')"

definition marker_risk :: "pystr \<Rightarrow> pystr" where
  "marker_risk text_lower =
     (if contains (str ''risk: high'') text_lower
         \<or> (contains (str ''high'') text_lower \<and> contains (str ''risk'') text_lower)
      then str ''High''
      else if contains (str ''risk: medium'') text_lower
         \<or> (contains (str ''medium'') text_lower \<and> contains (str ''risk'') text_lower)
      then str ''Medium''
      else if contains (str ''risk: low'') text_lower
         \<or> (contains (str ''low'') text_lower \<and> contains (str ''risk'') text_lower)
      then str ''Low''
      else str ''Low'')"

definition marker_fallback :: "(pystr \<Rightarrow> pystr) \<Rightarrow> pystr \<Rightarrow> analysis_record \<Rightarrow> analysis_record" where
  "marker_fallback lw analysis_text r =
     (if Signal r = [] \<or> Risk r = [] then
        (let text_lower = lw analysis_text;
             r1 = (if Signal r = [] then r\<lparr>Signal := marker_signal text_lower\<rparr> else r)
         in if Risk r1 = [] then r1\<lparr>Risk := marker_risk text_lower\<rparr> else r1)
      else r)"

text \<open>
  Source lines 775 to 845. The two fallback passes over the whole response are indented
  under \<^verbatim>\<open>if result['Risk']:\<close> in the source, so they run only when a Risk section was
  captured, after Risk has been reduced to one of its three values.
\<close>

definition normalize_risk :: "(pystr \<Rightarrow> pystr) \<Rightarrow> pystr \<Rightarrow> analysis_record \<Rightarrow> analysis_record" where
  "normalize_risk lw analysis_text r =
     (if Risk r \<noteq> [] then
        (let risk_lower = lw (Risk r);
             r1 = (if contains (str ''high'') risk_lower then r\<lparr>Risk := str ''High''\<rparr>
                   else if contains (str ''medium'') risk_lower then r\<lparr>Risk := str ''Medium''\<rparr>
                   else r\<lparr>Risk := str ''Low''\<rparr>)
         in marker_fallback lw analysis_text (full_text_fallback lw analysis_text r1))
      else r)"

text \<open>Final clean-up of the narrative (source lines 848 to 888).\<close>

definition final_cleanup :: "(pystr \<Rightarrow> pystr) \<Rightarrow> analysis_record \<Rightarrow> analysis_record" where
  "final_cleanup lw r =
     (if Key_insights r \<noteq> [] then
        (let insights_text = join (str '' '')
               (drop_header_lines lw [str ''date:'']
                  (split_sep (str [CHR 0x0A]) (Key_insights r)));
             ki = (if contains (str ''key insights:'') (lw insights_text) then
                     (case split_sep (str ''key insights:'') insights_text of
                        _ # p1 # _ \<Rightarrow> strip p1
                      | _ \<Rightarrow> strip insights_text)
                   else strip insights_text);
             ki = strip (replace (str ''key insights:'') [] (replace (str ''Key insights:'') [] ki))
         in r\<lparr>Key_insights := limit_words ki\<rparr>)
      else r)"

text \<open>
  The body of the \<^verbatim>\<open>try\<close> block. The argument is a Python value: a string, or
  \<open>None\<close>, on which \<^verbatim>\<open>analysis_text.split\<close> raises. \<open>today\<close> is
  \<^verbatim>\<open>datetime.now().strftime('%Y-%m-%d')\<close>.
\<close>

definition parse_body ::
  "(pystr \<Rightarrow> pystr) \<Rightarrow> pystr \<Rightarrow> pystr option \<Rightarrow> pystr \<Rightarrow> py_exn + analysis_record" where
  "parse_body lw today analysis_text source =
     (case analysis_text of
        None \<Rightarrow> Inl AttributeError
      | Some text \<Rightarrow>
          (let lines = split_sep (str [CHR 0x0A]) text;
               init = \<lparr>result = \<lparr>Date = today, Source = source, Key_insights = [],
                                  Signal = [], Risk = []\<rparr>,
                       current_section = None, section_content = []\<rparr>;
               r = result (foldl (scan_line lw) init lines);
               r = clean_insights lw r;
               r = normalize_signal lw r;
               r = normalize_risk lw text r;
               r = final_cleanup lw r;
               r = marker_fallback lw text r
           in Inr r))"

text \<open>\<open>_parse_analysis\<close>: the body, and the record of the \<^verbatim>\<open>except\<close> branch.\<close>

definition parsing_error_record :: "pystr \<Rightarrow> pystr \<Rightarrow> analysis_record" where
  "parsing_error_record today source =
     \<lparr>Date = today, Source = source, Key_insights = str ''Analysis parsing error'',
      Signal = str ''Neutral'', Risk = str ''Low''\<rparr>"

definition parse_analysis ::
  "(pystr \<Rightarrow> pystr) \<Rightarrow> pystr \<Rightarrow> pystr option \<Rightarrow> pystr \<Rightarrow> analysis_record" where
  "parse_analysis lw today analysis_text source =
     (case parse_body lw today analysis_text source of
        Inr r \<Rightarrow> r
      | Inl e \<Rightarrow> parsing_error_record today source)"

section \<open>The daily aggregator\<close>

text \<open>
  A scrape result is a Python dictionary; a key that may be absent is an optional field.
  The dictionary of a failed source (source lines 229, 340, 451) has only the keys
  source, error and timestamp.
\<close>

record scrape_result =
  source :: "pystr option"
  timestamp :: "pystr option"
  url :: "pystr option"
  headlines :: "pystr list option"
  key_insights :: "pystr list option"
  market_signals :: "pystr list option"
  error :: "pystr option"

text \<open>
  The values of the scraped data: a scrape result per source key, and the string under
  the key \<open>scraping_timestamp\<close>.
\<close>

datatype entry = Scraped scrape_result | Stamp pystr

record daily =
  sources :: "pystr list"
  agg_headlines :: "pystr list"
  agg_insights :: "pystr list"
  agg_signals :: "pystr list"

definition artifacts :: "pystr list" where
  "artifacts =
     [str ''Toggle filter'', str ''Chevron down'', str ''Read documentation'', str ''cross'',
      str ''Back to homepage'', str ''Contact Us'', str ''Useful links'', str ''Latest insights'',
      str ''Latest updates'', str ''Open data'', str ''About us'', str ''Careers'',
      str ''Toggle navigation'', str ''My User'', str ''Create account'', str ''Log in'',
      str ''View form'', str ''View source'', str ''History'', str ''Refresh'',
      str ''What links here'', str ''Browse Properties'', str ''From Open Energy Information'']"

text \<open>The keyword list of the branch for texts shorter than \<open>max_chars\<close>.\<close>

definition relevant_keywords :: "pystr list" where
  "relevant_keywords =
     [str ''ai'', str ''artificial intelligence'', str ''industrial'', str ''manufacturing'',
      str ''automation'', str ''predictive maintenance'', str ''edge computing'', str ''iot'',
      str ''smart'', str ''efficiency'', str ''reliability'', str ''sustainability'',
      str ''semiconductor'', str ''chip'', str ''power'', str ''motor'', str ''drive'',
      str ''equipment'', str ''optimization'', str ''machine learning'', str ''energy'',
      str ''electricity'', str ''renewable'', str ''solar'', str ''wind'', str ''battery'',
      str ''emission'', str ''carbon'', str ''clean'', str ''transition'', str ''investment'',
      str ''market'', str ''technology'', str ''research'', str ''production'', str ''factory'',
      str ''industry'']"

text \<open>The keyword list of the branch for truncated texts.\<close>

definition truncated_keywords :: "pystr list" where
  "truncated_keywords =
     [str ''ai'', str ''artificial intelligence'', str ''industrial'', str ''manufacturing'',
      str ''automation'', str ''predictive maintenance'', str ''edge computing'', str ''iot'',
      str ''smart'', str ''efficiency'', str ''reliability'', str ''sustainability'',
      str ''semiconductor'', str ''chip'', str ''power'']"

text \<open>\<^verbatim>\<open>any(keyword in text.lower() for keyword in keywords)\<close>\<close>

definition any_keyword :: "(pystr \<Rightarrow> pystr) \<Rightarrow> pystr list \<Rightarrow> pystr \<Rightarrow> bool" where
  "any_keyword lw keywords t = list_ex (\<lambda>keyword. contains keyword (lw t)) keywords"

text \<open>
  The cleaning of one text: whitespace collapsed, every artifact removed in the order of
  the list, whitespace collapsed again.
\<close>

definition cleaned_text :: "pystr \<Rightarrow> pystr" where
  "cleaned_text t =
     join (str '' '') (split_ws
       (foldl (\<lambda>c artifact. replace artifact [] c) (join (str '' '') (split_ws t)) artifacts))"

text \<open>
  \<open>clean_and_truncate_text\<close> (source lines 503 to 550): the loop appends to
  \<open>cleaned\<close> what it keeps of each text.
\<close>

fun clean_and_truncate_text :: "(pystr \<Rightarrow> pystr) \<Rightarrow> pystr list \<Rightarrow> nat \<Rightarrow> pystr list" where
  "clean_and_truncate_text lw [] max_chars = []"
| "clean_and_truncate_text lw (t # text_list) max_chars =
     (let c = cleaned_text t;
          kept =
            (if length c > 30 \<and> length c < max_chars then
               (if any_keyword lw relevant_keywords c then [c] else [])
             else if length c \<ge> max_chars then
               (let truncated = take max_chars c @ str ''...'' in
                if any_keyword lw truncated_keywords truncated then [truncated] else [])
             else [])
      in kept @ clean_and_truncate_text lw text_list max_chars)"

text \<open>\<^verbatim>\<open>source_data.get(key, [])\<close>\<close>

definition get_list :: "pystr list option \<Rightarrow> pystr list" where
  "get_list v = (case v of None \<Rightarrow> [] | Some xs \<Rightarrow> xs)"

definition empty_daily :: daily where
  "empty_daily = \<lparr>sources = [], agg_headlines = [], agg_insights = [], agg_signals = []\<rparr>"

text \<open>
  One round of the loop over the scraped data (source lines 493 to 570). \<open>daily_data\<close>
  is a dictionary in insertion order. A string under a key other than
  \<open>scraping_timestamp\<close> is skipped if it contains \<open>error\<close>, and otherwise has no
  \<open>get\<close>.
\<close>

definition add_source ::
  "(pystr \<Rightarrow> pystr) \<Rightarrow> pystr \<Rightarrow> (pystr \<times> daily) list \<Rightarrow> pystr \<times> entry
     \<Rightarrow> py_exn + (pystr \<times> daily) list" where
  "add_source lw current_date daily_data kv =
     (case kv of (source_key, source_data) \<Rightarrow>
        if source_key = str ''scraping_timestamp'' then Inr daily_data
        else (case source_data of
            Stamp s \<Rightarrow> if contains (str ''error'') s then Inr daily_data else Inl AttributeError
          | Scraped r \<Rightarrow>
              if error r \<noteq> None then Inr daily_data
              else
                (let hs = clean_and_truncate_text lw (take 2 (get_list (headlines r))) 150;
                     ins = clean_and_truncate_text lw (take 2 (get_list (key_insights r))) 150;
                     sigs = clean_and_truncate_text lw (take 2 (get_list (market_signals r))) 150;
                     d = (case map_of daily_data current_date of
                            None \<Rightarrow> empty_daily | Some d \<Rightarrow> d)
                 in Inr (AList.update current_date
                      (d\<lparr>sources := sources d @
                            [case source r of None \<Rightarrow> str ''Unknown'' | Some n \<Rightarrow> n],
                         agg_headlines := agg_headlines d @ hs,
                         agg_insights := agg_insights d @ ins,
                         agg_signals := agg_signals d @ sigs\<rparr>) daily_data))))"

fun aggregate ::
  "(pystr \<Rightarrow> pystr) \<Rightarrow> pystr \<Rightarrow> (pystr \<times> daily) list \<Rightarrow> (pystr \<times> entry) list
     \<Rightarrow> py_exn + (pystr \<times> daily) list" where
  "aggregate lw current_date daily_data [] = Inr daily_data"
| "aggregate lw current_date daily_data (kv # rest) =
     (case add_source lw current_date daily_data kv of
        Inl e \<Rightarrow> Inl e
      | Inr daily_data' \<Rightarrow> aggregate lw current_date daily_data' rest)"

text \<open>
  What the prompt of one day is built from (source lines 577 to 627): the date and the
  capped lists. The prompt is a fixed template around them.
\<close>

record batch =
  batch_date :: pystr
  all_sources :: "pystr list"
  all_headlines :: "pystr list"
  all_insights :: "pystr list"
  all_signals :: "pystr list"

definition daily_batch :: "pystr \<times> daily \<Rightarrow> batch" where
  "daily_batch kv =
     (case kv of (date, aggregated_data) \<Rightarrow>
        \<lparr>batch_date = date, all_sources = sources aggregated_data,
         all_headlines = take 5 (agg_headlines aggregated_data),
         all_insights = take 5 (agg_insights aggregated_data),
         all_signals = take 5 (agg_signals aggregated_data)\<rparr>)"

text \<open>
  The outcome of \<^verbatim>\<open>openai.ChatCompletion.create\<close>: a response with its message content
  (\<open>None\<close> when the response carries none), or one of the exceptions the source
  distinguishes, with its message.
\<close>

datatype completion =
    Content "pystr option"
  | InvalidRequestError pystr
  | AuthenticationError pystr
  | OtherException pystr

definition insufficient_data_message :: pystr where
  "insufficient_data_message =
     str ''Unable to generate analysis due to insufficient data. Need at least 2 data points from sources.''"

text \<open>
  Source lines 630 to 664: the text handed to the parser, and the model calls issued
  for it.
\<close>

definition analysis_text_of :: "(batch \<Rightarrow> completion) \<Rightarrow> batch \<Rightarrow> pystr \<times> batch list" where
  "analysis_text_of model_call b =
     (let total_data_points =
            length (all_headlines b) + length (all_insights b) + length (all_signals b)
      in if total_data_points < 2 then (insufficient_data_message, [])
         else
           (case model_call b of
              Content None \<Rightarrow>
                (str ''Error in AI analysis: object of type '' @ [39] @ str ''NoneType'' @ [39]
                   @ str '' has no len()'', [b])
            | Content (Some t) \<Rightarrow>
                (if t = [] then str ''Unable to generate analysis due to insufficient data.''
                 else t, [b])
            | InvalidRequestError e \<Rightarrow>
                (str ''Model configuration error: '' @ e
                   @ str ''. Please check OPENAI_MODEL setting.'', [b])
            | AuthenticationError e \<Rightarrow>
                (str ''Authentication error: '' @ e @ str ''. Please check OPENAI_API_KEY.'', [b])
            | OtherException e \<Rightarrow> (str ''Error in AI analysis: '' @ e, [b])))"

text \<open>
  \<open>analyze_for_infineon\<close>: the analysis records, one per day, and the model calls
  issued. An exception of the aggregation loop ends the function with no record.
  \<open>current_date\<close> is the date read at the start of the function, \<open>today\<close> the one
  the parser reads.
\<close>

definition analyze_for_infineon ::
  "(pystr \<Rightarrow> pystr) \<Rightarrow> pystr \<Rightarrow> pystr \<Rightarrow> (batch \<Rightarrow> completion) \<Rightarrow> (pystr \<times> entry) list
     \<Rightarrow> analysis_record list \<times> batch list" where
  "analyze_for_infineon lw current_date today model_call data =
     (case aggregate lw current_date [] data of
        Inl e \<Rightarrow> ([], [])
      | Inr daily_data \<Rightarrow>
          (let outcomes = map (\<lambda>kv. analysis_text_of model_call (daily_batch kv)) daily_data;
               records = map (\<lambda>(kv, outcome).
                   parse_analysis lw today (Some (fst outcome))
                     (str ''Daily Analysis - '' @ join (str '', '') (sources (snd kv))))
                 (zip daily_data outcomes)
           in (records, concat (map snd outcomes))))"

section \<open>The scraper\<close>

text \<open>
  What the source reads from a parsed page (BeautifulSoup): the elements a CSS selector
  matches, the headings \<open>h1\<close> to \<open>h3\<close> of the document, and the text of the page. Of
  an element it reads the text of the first heading \<open>h1\<close> to \<open>h5\<close> inside it, if
  there is one, and its own text.
\<close>

record element =
  find_heading :: "pystr option"
  elem_text :: pystr

record soup =
  select :: "pystr \<Rightarrow> element list"
  find_all_headings :: "element list"
  get_text :: pystr

text \<open>The lists a scraper fills while it tries the URLs of its source.\<close>

record scrape_data =
  d_url :: pystr
  d_headlines :: "pystr list"
  d_key_insights :: "pystr list"
  d_market_signals :: "pystr list"

datatype fetch_error = RequestException | HTTPError | ParserError

definition news_selectors :: "pystr list" where
  "news_selectors =
     [str ''article'', str ''.article'', str ''.story'', str ''.post'', str ''.entry'',
      str ''.news-item'', str ''.content-item'', str ''.featured-article'',
      str ''[class*='' @ [34] @ str ''article'' @ [34] @ str '']'',
      str ''[class*='' @ [34] @ str ''story'' @ [34] @ str '']'',
      str ''[class*='' @ [34] @ str ''post'' @ [34] @ str '']'',
      str ''h1'', str ''h2'', str ''h3'']"

definition skip_words :: "pystr list" where
  "skip_words =
     [str ''menu'', str ''navigation'', str ''search'', str ''close'', str ''skip'',
      str ''subscribe'', str ''newsletter'']"

text \<open>The test on a headline text, after \<^verbatim>\<open>' '.join(text.strip().split())\<close>.\<close>

definition headline_of :: "(pystr \<Rightarrow> pystr) \<Rightarrow> pystr \<Rightarrow> pystr list" where
  "headline_of lw raw =
     (let t = join (str '' '') (split_ws (strip raw)) in
      if t \<noteq> [] \<and> length t > 10 \<and> length t < 200 \<and> \<not> any_keyword lw skip_words t
      then [t] else [])"

definition extract_headlines :: "(pystr \<Rightarrow> pystr) \<Rightarrow> soup \<Rightarrow> pystr list \<Rightarrow> pystr list" where
  "extract_headlines lw page before =
     (let news_items = concat (map (select page) news_selectors);
          found = before @ concat (map (\<lambda>item.
                    case find_heading item of None \<Rightarrow> [] | Some t \<Rightarrow> headline_of lw t)
                  (take 10 news_items))
      in if found = [] then
           concat (map (\<lambda>headline. headline_of lw (elem_text headline))
             (take 10 (find_all_headings page)))
         else found)"

text \<open>
  The sentences with a digit and a keyword. \<open>dg\<close> is \<open>str.isdigit\<close> for one
  character, which depends on the Unicode tables like \<open>lw\<close>.
\<close>

definition extract_insights ::
  "(pystr \<Rightarrow> pystr) \<Rightarrow> (nat \<Rightarrow> bool) \<Rightarrow> pystr list \<Rightarrow> pystr \<Rightarrow> pystr list" where
  "extract_insights lw dg keywords content =
     concat (map (\<lambda>raw.
        let sentence = strip raw in
        if list_ex dg sentence \<and> 20 < length sentence \<and> length sentence < 300
           \<and> list_ex (\<lambda>keyword. contains keyword (lw sentence)) keywords
           \<and> length (join (str '' '') (split_ws sentence)) > 20
        then [join (str '' '') (split_ws sentence)] else [])
      (split_sep (str ''.'') content))"

text \<open>
  For every keyword that occurs in the page, the first sentence with the keyword that is
  kept.
\<close>

definition extract_signals :: "(pystr \<Rightarrow> pystr) \<Rightarrow> pystr list \<Rightarrow> pystr \<Rightarrow> pystr list" where
  "extract_signals lw keywords content =
     concat (map (\<lambda>keyword.
        if contains (lw keyword) (lw content) then
          (case filter (\<lambda>sentence.
                  contains (lw keyword) (lw sentence)
                  \<and> 20 < length sentence \<and> length sentence < 300
                  \<and> length (join (str '' '') (split_ws sentence)) > 20)
                (map strip (split_sep (str ''.'') content)) of
             [] \<Rightarrow> []
           | sentence # _ \<Rightarrow> [join (str '' '') (split_ws sentence)])
        else [])
      keywords)"

text \<open>
  The loop over the candidate URLs of a source (source lines 141 to 217). \<open>fetch\<close> is
  the request, its status check and the parsing of the page, which raise before anything
  is written to \<open>data\<close>; the \<^verbatim>\<open>except\<close> branch goes on with the next URL.
\<close>

fun try_urls ::
  "(pystr \<Rightarrow> pystr) \<Rightarrow> (nat \<Rightarrow> bool) \<Rightarrow> pystr list \<Rightarrow> pystr list \<Rightarrow> (pystr \<Rightarrow> fetch_error + soup)
     \<Rightarrow> scrape_data \<Rightarrow> pystr list \<Rightarrow> scrape_data" where
  "try_urls lw dg insight_keywords signal_keywords fetch data [] = data"
| "try_urls lw dg insight_keywords signal_keywords fetch data (u # news_urls) =
     (case fetch u of
        Inl e \<Rightarrow> try_urls lw dg insight_keywords signal_keywords fetch data news_urls
      | Inr page \<Rightarrow>
          (let data' = \<lparr>d_url = u,
                 d_headlines = extract_headlines lw page (d_headlines data),
                 d_key_insights = d_key_insights data
                   @ extract_insights lw dg insight_keywords (get_text page),
                 d_market_signals = d_market_signals data
                   @ extract_signals lw signal_keywords (get_text page)\<rparr>
           in if d_headlines data' \<noteq> [] \<or> d_key_insights data' \<noteq> []
                 \<or> d_market_signals data' \<noteq> []
              then data'
              else try_urls lw dg insight_keywords signal_keywords fetch data' news_urls))"

text \<open>
  A scraper (\<open>scrape_canary\<close>, \<open>scrape_industryweek\<close>, \<open>scrape_eia\<close>): the three
  differ in the name, the URLs and the keywords. \<open>now\<close> is
  \<^verbatim>\<open>datetime.now().isoformat()\<close>. The outer \<^verbatim>\<open>except\<close> branch, which returns a
  dictionary with the key \<open>error\<close>, guards statements that do not raise.
\<close>

definition scrape_source ::
  "(pystr \<Rightarrow> pystr) \<Rightarrow> (nat \<Rightarrow> bool) \<Rightarrow> pystr \<Rightarrow> pystr list \<Rightarrow> pystr list \<Rightarrow> pystr list \<Rightarrow> pystr
     \<Rightarrow> (pystr \<Rightarrow> fetch_error + soup) \<Rightarrow> scrape_result" where
  "scrape_source lw dg name news_urls insight_keywords signal_keywords now fetch =
     (let data = try_urls lw dg insight_keywords signal_keywords fetch
            \<lparr>d_url = [], d_headlines = [], d_key_insights = [], d_market_signals = []\<rparr>
            news_urls
      in \<lparr>source = Some name, timestamp = Some now, url = Some (d_url data),
          headlines = Some (take 5 (d_headlines data)),
          key_insights = Some (take 5 (d_key_insights data)),
          market_signals = Some (take 5 (d_market_signals data)),
          error = None\<rparr>)"

definition canary_urls :: "pystr list" where
  "canary_urls =
     [str ''https://www.canarymedia.com/'', str ''https://www.canarymedia.com/articles'',
      str ''https://www.canarymedia.com/news'', str ''https://www.canarymedia.com/energy'']"

definition industryweek_urls :: "pystr list" where
  "industryweek_urls =
     [str ''https://www.industryweek.com/'', str ''https://www.industryweek.com/news'',
      str ''https://www.industryweek.com/technology'',
      str ''https://www.industryweek.com/operations'']"

definition eia_urls :: "pystr list" where
  "eia_urls =
     [str ''https://www.eia.gov/todayinenergy/'',
      str ''https://www.eia.gov/todayinenergy/index.php'',
      str ''https://www.eia.gov/outlooks/steo/'', str ''https://www.eia.gov/'']"

definition scrape_canary ::
  "(pystr \<Rightarrow> pystr) \<Rightarrow> (nat \<Rightarrow> bool) \<Rightarrow> pystr \<Rightarrow> (pystr \<Rightarrow> fetch_error + soup) \<Rightarrow> scrape_result" where
  "scrape_canary lw dg =
     scrape_source lw dg (str ''Canary Media'') canary_urls
       [str ''energy'', str ''electricity'', str ''renewable'', str ''solar'', str ''wind'',
        str ''battery'', str ''emission'', str ''carbon'', str ''clean'', str ''transition'']
       [str ''renewable'', str ''solar'', str ''wind'', str ''battery'', str ''electric vehicle'',
        str ''green energy'', str ''carbon'', str ''emission'', str ''transition'',
        str ''clean energy'']"

definition scrape_industryweek ::
  "(pystr \<Rightarrow> pystr) \<Rightarrow> (nat \<Rightarrow> bool) \<Rightarrow> pystr \<Rightarrow> (pystr \<Rightarrow> fetch_error + soup) \<Rightarrow> scrape_result" where
  "scrape_industryweek lw dg =
     scrape_source lw dg (str ''Industry Week'') industryweek_urls
       [str ''manufacturing'', str ''production'', str ''automation'', str ''technology'',
        str ''industry'', str ''supply chain'', str ''efficiency'', str ''productivity'']
       [str ''manufacturing'', str ''production'', str ''automation'', str ''technology'',
        str ''industry'', str ''supply chain'', str ''efficiency'', str ''productivity'',
        str ''semiconductor'', str ''automotive'']"

definition scrape_eia ::
  "(pystr \<Rightarrow> pystr) \<Rightarrow> (nat \<Rightarrow> bool) \<Rightarrow> pystr \<Rightarrow> (pystr \<Rightarrow> fetch_error + soup) \<Rightarrow> scrape_result" where
  "scrape_eia lw dg =
     scrape_source lw dg (str ''EIA Today in Energy'') eia_urls
       [str ''energy'', str ''electricity'', str ''oil'', str ''gas'', str ''coal'',
        str ''renewable'', str ''solar'', str ''wind'', str ''battery'', str ''emission'',
        str ''carbon'', str ''consumption'', str ''production'']
       [str ''energy'', str ''electricity'', str ''oil'', str ''gas'', str ''coal'',
        str ''renewable'', str ''solar'', str ''wind'', str ''battery'', str ''emission'',
        str ''carbon'', str ''consumption'', str ''production'', str ''market'', str ''price'']"

text \<open>
  \<open>scrape_all_sources\<close>: one scrape per configured source key that has a handler, in
  the order of the configuration, then the time stamp. \<open>nows\<close> gives the clock reading
  of each scrape.
\<close>

fun scrape_each ::
  "(pystr \<Rightarrow> pystr) \<Rightarrow> (nat \<Rightarrow> bool) \<Rightarrow> (pystr \<Rightarrow> pystr) \<Rightarrow> (pystr \<Rightarrow> fetch_error + soup)
     \<Rightarrow> (pystr \<times> entry) list \<Rightarrow> pystr list \<Rightarrow> (pystr \<times> entry) list" where
  "scrape_each lw dg nows fetch data [] = data"
| "scrape_each lw dg nows fetch data (key # keys) =
     scrape_each lw dg nows fetch
       (if key = str ''canary'' then
          AList.update key (Scraped (scrape_canary lw dg (nows key) fetch)) data
        else if key = str ''industryweek'' then
          AList.update key (Scraped (scrape_industryweek lw dg (nows key) fetch)) data
        else if key = str ''eia'' then
          AList.update key (Scraped (scrape_eia lw dg (nows key) fetch)) data
        else data)
       keys"

definition scrape_all_sources ::
  "(pystr \<Rightarrow> pystr) \<Rightarrow> (nat \<Rightarrow> bool) \<Rightarrow> (pystr \<Rightarrow> pystr) \<Rightarrow> pystr \<Rightarrow> (pystr \<Rightarrow> fetch_error + soup)
     \<Rightarrow> pystr list \<Rightarrow> (pystr \<times> entry) list" where
  "scrape_all_sources lw dg nows end_time fetch keys =
     AList.update (str ''scraping_timestamp'') (Stamp end_time)
       (scrape_each lw dg nows fetch [] keys)"

text \<open>
  Concrete inputs of the examples below: the ASCII digits as \<open>str.isdigit\<close>, and a
  network on which every request fails.
\<close>

definition ascii_digit :: "nat \<Rightarrow> bool" where
  "ascii_digit c \<longleftrightarrow> 48 \<le> c \<and> c \<le> 57"

definition unreachable :: "pystr \<Rightarrow> fetch_error + soup" where
  "unreachable u = Inl RequestException"

text \<open>The values of the two classifications.\<close>

definition signal_values :: "pystr set" where
  "signal_values = {str ''Positive'', str ''Neutral'', str ''Negative''}"

definition risk_values :: "pystr set" where
  "risk_values = {str ''Low'', str ''Medium'', str ''High''}"

text \<open>A day whose aggregated texts all have a keyword of the long list.\<close>

definition day_relevant :: "(pystr \<Rightarrow> pystr) \<Rightarrow> daily \<Rightarrow> bool" where
  "day_relevant lw d \<longleftrightarrow>
     (\<forall>x \<in> set (agg_headlines d) \<union> set (agg_insights d) \<union> set (agg_signals d).
        any_keyword lw relevant_keywords x)"

text \<open>
  The source keys that \<open>scrape_all_sources\<close> has a handler for, the display name of
  each, and the dictionary a scraper returns when it has collected nothing.
\<close>

definition handled :: "pystr \<Rightarrow> bool" where
  "handled key \<longleftrightarrow> key = str ''canary'' \<or> key = str ''industryweek'' \<or> key = str ''eia''"

definition source_name :: "pystr \<Rightarrow> pystr" where
  "source_name key =
     (if key = str ''canary'' then str ''Canary Media''
      else if key = str ''industryweek'' then str ''Industry Week''
      else str ''EIA Today in Energy'')"

definition nothing_scraped :: "pystr \<Rightarrow> pystr \<Rightarrow> scrape_result" where
  "nothing_scraped name now =
     \<lparr>source = Some name, timestamp = Some now, url = Some [], headlines = Some [],
      key_insights = Some [], market_signals = Some [], error = None\<rparr>"

text \<open>
  The two responses of the scenarios of the specification: one in the requested output
  format, one without any section header.
\<close>

definition scenario_text :: pystr where
  "scenario_text =
     str ''Date: 2025-01-10'' @ [10] @ str ''Key insights: Strong growth'' @ [10]
     @ str ''Signal: '' @ [green_circle] @ str '' Positive reasoning'' @ [10]
     @ str ''Risk: risk: high reasoning''"

definition headerless_text :: pystr where
  "headerless_text =
     str ''Things look mixed. negative sentiment expected. risk is medium overall.''"

text \<open>
  The candidate URLs of a source key and the handler that \<open>scrape_all_sources\<close> calls
  for it (source lines 459 to 464).
\<close>

definition source_urls :: "pystr \<Rightarrow> pystr list" where
  "source_urls key =
     (if key = str ''canary'' then canary_urls
      else if key = str ''industryweek'' then industryweek_urls
      else eia_urls)"

definition scrape_key ::
  "(pystr \<Rightarrow> pystr) \<Rightarrow> (nat \<Rightarrow> bool) \<Rightarrow> pystr \<Rightarrow> pystr \<Rightarrow> (pystr \<Rightarrow> fetch_error + soup)
     \<Rightarrow> scrape_result" where
  "scrape_key lw dg key =
     (if key = str ''canary'' then scrape_canary lw dg
      else if key = str ''industryweek'' then scrape_industryweek lw dg
      else scrape_eia lw dg)"

text \<open>
  More concrete inputs of the examples: a page with one heading and no text, a network on
  which only the first URL of Canary Media fails, one on which all URLs of Canary Media
  fail, and a clock that stands still.
\<close>

definition example_page :: soup where
  "example_page =
     \<lparr>select = (\<lambda>selector. []),
      find_all_headings = [\<lparr>find_heading = None, elem_text = str ''Solar power market grows''\<rparr>],
      get_text = []\<rparr>"

definition first_url_down :: "pystr \<Rightarrow> fetch_error + soup" where
  "first_url_down u =
     (if u = str ''https://www.canarymedia.com/'' then Inl HTTPError else Inr example_page)"

definition canary_down :: "pystr \<Rightarrow> fetch_error + soup" where
  "canary_down u = (if u \<in> set canary_urls then Inl RequestException else Inr example_page)"

definition still_clock :: "pystr \<Rightarrow> pystr" where
  "still_clock key = str ''2025-01-10T08:00:00''"

text \<open>
  The number of words of a text, \<^verbatim>\<open>len(s.split())\<close>, counted character by character:
  \<open>wc b s\<close> is the number of words that begin in \<open>s\<close>, where \<open>b\<close> tells whether
  \<open>s\<close> starts inside a word.
\<close>

fun wc :: "bool \<Rightarrow> pystr \<Rightarrow> nat" where
  "wc b [] = 0"
| "wc b (c # cs) = (if isspace c then wc False cs else (if b then 0 else 1) + wc True cs)"







section \<open>The aggregator: properties\<close>

lemma add_source_error: "error r = Some e \<Longrightarrow> add_source lw d dd (k, Scraped r) = Inr dd"
  by (simp add: add_source_def)

text \<open>
  Claim C5. A scrape result with the key \<open>error\<close> contributes nothing to the daily
  aggregation: wherever it stands in the scraped data, the aggregation is the one of the
  data without it, in its sources and in its headlines, insights and signals.
\<close>

theorem error_result_excluded:
  "error r = Some e \<Longrightarrow>
   aggregate lw d dd (xs @ (k, Scraped r) # ys) = aggregate lw d dd (xs @ ys)"
proof (induction xs arbitrary: dd)
  case Nil
  then show ?case by (simp add: add_source_error)
next
  case (Cons x xs)
  then show ?case by (simp split: sum.splits)
qed

theorem error_result_excluded_witness:
  "error \<lparr>source = Some (str ''Canary Media''), timestamp = Some (str ''2025-01-10T08:00:00''),
          url = None, headlines = None, key_insights = None, market_signals = None,
          error = Some (str ''timed out'')\<rparr> = Some (str ''timed out'')
   \<and> aggregate ascii_lower (str ''2025-01-10'') []
        [(str ''canary'', Scraped \<lparr>source = Some (str ''Canary Media''),
            timestamp = Some (str ''2025-01-10T08:00:00''), url = None, headlines = None,
            key_insights = None, market_signals = None,
            error = Some (str ''timed out'')\<rparr>)] = Inr []"
  using error_result_excluded [of "\<lparr>source = Some (str ''Canary Media''),
      timestamp = Some (str ''2025-01-10T08:00:00''), url = None, headlines = None,
      key_insights = None, market_signals = None, error = Some (str ''timed out'')\<rparr>"
    "str ''timed out''" ascii_lower "str ''2025-01-10''" "[]" "[]" "str ''canary''" "[]"]
  by simp

text \<open>
  Claim C6. \<open>clean_and_truncate_text\<close> keeps of each text, in the order of the list,
  the cleaned text if its length is strictly between 30 and 150 and it has a keyword of
  the long list; the first 150 characters of the cleaned text followed by three periods if
  the cleaned text has at least 150 characters and the truncated text has a keyword of the
  short list; and nothing otherwise.
\<close>

theorem clean_and_truncate_text_keeps:
  "clean_and_truncate_text lw ts 150 =
     concat (map (\<lambda>t. let c = cleaned_text t in
        if 30 < length c \<and> length c < 150 \<and> any_keyword lw relevant_keywords c then [c]
        else if 150 \<le> length c \<and> any_keyword lw truncated_keywords (take 150 c @ str ''...'')
        then [take 150 c @ str ''...'']
        else []) ts)"
  by (induction ts) (auto simp: Let_def)

text \<open>
  Claim C10. For a batch with fewer than two headlines, insights and signals in all, no
  model call is issued, and the text handed to the parser is the fixed message about
  insufficient data.
\<close>

theorem insufficient_data_no_model_call:
  "length (all_headlines b) + length (all_insights b) + length (all_signals b) < 2 \<Longrightarrow>
   analysis_text_of model_call b = (insufficient_data_message, [])"
  by (simp add: analysis_text_of_def)

theorem insufficient_data_no_model_call_witness:
  "length (all_headlines \<lparr>batch_date = str ''2025-01-10'', all_sources = [str ''Canary Media''],
       all_headlines = [str ''Solar power market grows''], all_insights = [],
       all_signals = []\<rparr>)
     + length (all_insights \<lparr>batch_date = str ''2025-01-10'',
         all_sources = [str ''Canary Media''],
         all_headlines = [str ''Solar power market grows''], all_insights = [],
         all_signals = []\<rparr>)
     + length (all_signals \<lparr>batch_date = str ''2025-01-10'',
         all_sources = [str ''Canary Media''],
         all_headlines = [str ''Solar power market grows''], all_insights = [],
         all_signals = []\<rparr>) < 2
   \<and> analysis_text_of (\<lambda>b. Content (Some (str ''Signal: Positive'')))
        \<lparr>batch_date = str ''2025-01-10'', all_sources = [str ''Canary Media''],
         all_headlines = [str ''Solar power market grows''], all_insights = [],
         all_signals = []\<rparr> = (insufficient_data_message, [])"
  using insufficient_data_no_model_call [of "\<lparr>batch_date = str ''2025-01-10'',
      all_sources = [str ''Canary Media''],
      all_headlines = [str ''Solar power market grows''], all_insights = [],
      all_signals = []\<rparr>" "\<lambda>b. Content (Some (str ''Signal: Positive''))"]
  by simp

section \<open>The parser: signal and risk\<close>

lemma marker_signal_value: "marker_signal t \<in> signal_values"
  by (simp add: marker_signal_def signal_values_def)

lemma marker_risk_value: "marker_risk t \<in> risk_values"
  by (simp add: marker_risk_def risk_values_def)

lemma normalize_signal_value:
  "Signal (normalize_signal lw r) \<in> insert [] signal_values"
  by (simp add: normalize_signal_def signal_values_def Let_def)

lemma full_text_fallback_value:
  "Signal r \<in> insert [] signal_values \<Longrightarrow> Risk r \<in> insert [] risk_values \<Longrightarrow>
   Signal (full_text_fallback lw t r) \<in> insert [] signal_values
   \<and> Risk (full_text_fallback lw t r) \<in> insert [] risk_values"
  by (simp add: full_text_fallback_def signal_values_def risk_values_def Let_def split: list.splits)

lemma marker_fallback_value:
  "Signal r \<in> insert [] signal_values \<Longrightarrow> Risk r \<in> insert [] risk_values \<Longrightarrow>
   Signal (marker_fallback lw t r) \<in> signal_values \<and> Risk (marker_fallback lw t r) \<in> risk_values"
  using marker_signal_value [of "lw t"] marker_risk_value [of "lw t"]
  by (auto simp: marker_fallback_def Let_def)

lemma marker_fallback_value_weak:
  "Signal r \<in> insert [] signal_values \<Longrightarrow> Risk r \<in> insert [] risk_values \<Longrightarrow>
   Signal (marker_fallback lw t r) \<in> insert [] signal_values
   \<and> Risk (marker_fallback lw t r) \<in> insert [] risk_values"
  using marker_fallback_value [of r lw t] by simp

lemma normalize_risk_value:
  assumes "Signal r \<in> insert [] signal_values"
  shows "Signal (normalize_risk lw t r) \<in> insert [] signal_values
   \<and> Risk (normalize_risk lw t r) \<in> insert [] risk_values"
proof (cases "Risk r = []")
  case True
  with assms show ?thesis by (simp add: normalize_risk_def)
next
  case False
  define r1 where "r1 = (if contains (str ''high'') (lw (Risk r)) then r\<lparr>Risk := str ''High''\<rparr>
                   else if contains (str ''medium'') (lw (Risk r)) then r\<lparr>Risk := str ''Medium''\<rparr>
                   else r\<lparr>Risk := str ''Low''\<rparr>)"
  have r1: "Signal r1 \<in> insert [] signal_values" "Risk r1 \<in> insert [] risk_values"
    using assms by (simp_all add: r1_def risk_values_def)
  have "normalize_risk lw t r = marker_fallback lw t (full_text_fallback lw t r1)"
    using False by (simp add: normalize_risk_def r1_def Let_def)
  then show ?thesis
    using marker_fallback_value_weak [of "full_text_fallback lw t r1" lw t]
      full_text_fallback_value [OF r1, of lw t] by simp
qed

lemma final_cleanup_fields:
  "Signal (final_cleanup lw r) = Signal r" "Risk (final_cleanup lw r) = Risk r"
  by (simp_all add: final_cleanup_def Let_def)

lemma parse_body_Some:
  "parse_body lw today (Some text) src =
     Inr (marker_fallback lw text (final_cleanup lw (normalize_risk lw text (normalize_signal lw
       (clean_insights lw (result (foldl (scan_line lw)
          \<lparr>result = \<lparr>Date = today, Source = src, Key_insights = [], Signal = [], Risk = []\<rparr>,
           current_section = None, section_content = []\<rparr>
          (split_sep (str [CHR 0x0A]) text))))))))"
  by (simp add: parse_body_def Let_def)

text \<open>
  Claim C1. For every input text, empty or not, the parser returns a record whose Signal
  is one of Positive, Neutral, Negative and whose Risk is one of Low, Medium, High; and
  whenever the body of the parser raises, the parser returns the fixed record with the
  narrative \<open>Analysis parsing error\<close>, Signal Neutral and Risk Low.
\<close>

theorem parse_analysis_total_enums:
  "Signal (parse_analysis lw today (Some text) src) \<in> signal_values
   \<and> Risk (parse_analysis lw today (Some text) src) \<in> risk_values
   \<and> (\<forall>v e. parse_body lw today v src = Inl e \<longrightarrow>
         parse_analysis lw today v src =
           \<lparr>Date = today, Source = src, Key_insights = str ''Analysis parsing error'',
            Signal = str ''Neutral'', Risk = str ''Low''\<rparr>)"
proof -
  let ?r0 = "clean_insights lw (result (foldl (scan_line lw)
          \<lparr>result = \<lparr>Date = today, Source = src, Key_insights = [], Signal = [], Risk = []\<rparr>,
           current_section = None, section_content = []\<rparr>
          (split_sep (str [CHR 0x0A]) text)))"
  let ?r2 = "normalize_risk lw text (normalize_signal lw ?r0)"
  have "Signal ?r2 \<in> insert [] signal_values \<and> Risk ?r2 \<in> insert [] risk_values"
    by (rule normalize_risk_value) (rule normalize_signal_value)
  then have "Signal (final_cleanup lw ?r2) \<in> insert [] signal_values"
    "Risk (final_cleanup lw ?r2) \<in> insert [] risk_values"
    by (simp_all add: final_cleanup_fields)
  then have "Signal (marker_fallback lw text (final_cleanup lw ?r2)) \<in> signal_values
    \<and> Risk (marker_fallback lw text (final_cleanup lw ?r2)) \<in> risk_values"
    by (rule marker_fallback_value)
  moreover have "parse_analysis lw today (Some text) src
      = marker_fallback lw text (final_cleanup lw ?r2)"
    by (simp add: parse_analysis_def parse_body_Some)
  ultimately show ?thesis
    by (simp add: parse_analysis_def parsing_error_record_def)
qed

theorem parse_analysis_total_enums_witness:
  "parse_body ascii_lower (str ''2025-01-10'') None (str ''Daily Analysis'') = Inl AttributeError
   \<and> parse_analysis ascii_lower (str ''2025-01-10'') None (str ''Daily Analysis'')
     = \<lparr>Date = str ''2025-01-10'', Source = str ''Daily Analysis'',
        Key_insights = str ''Analysis parsing error'',
        Signal = str ''Neutral'', Risk = str ''Low''\<rparr>"
proof -
  have raised: "parse_body ascii_lower (str ''2025-01-10'') None (str ''Daily Analysis'')
      = Inl AttributeError"
    by (simp add: parse_body_def)
  from parse_analysis_total_enums [of ascii_lower "str ''2025-01-10''" "[]" "str ''Daily Analysis''"]
  have "\<forall>v e. parse_body ascii_lower (str ''2025-01-10'') v (str ''Daily Analysis'') = Inl e \<longrightarrow>
         parse_analysis ascii_lower (str ''2025-01-10'') v (str ''Daily Analysis'') =
           \<lparr>Date = str ''2025-01-10'', Source = str ''Daily Analysis'',
            Key_insights = str ''Analysis parsing error'',
            Signal = str ''Neutral'', Risk = str ''Low''\<rparr>"
    by blast
  with raised show ?thesis by blast
qed

section \<open>The aggregator: the batch handed to the model\<close>

lemma truncated_subset: "set truncated_keywords \<subseteq> set relevant_keywords"
  by (simp add: truncated_keywords_def relevant_keywords_def)

lemma any_keyword_mono:
  "set ks \<subseteq> set ks' \<Longrightarrow> any_keyword lw ks t \<Longrightarrow> any_keyword lw ks' t"
  by (auto simp: any_keyword_def list_ex_iff)

lemma clean_and_truncate_relevant:
  "x \<in> set (clean_and_truncate_text lw ts n) \<Longrightarrow> any_keyword lw relevant_keywords x"
proof (induction ts)
  case Nil
  then show ?case by simp
next
  case (Cons t ts)
  then show ?case
    using any_keyword_mono [OF truncated_subset]
    by (auto simp: Let_def split: if_splits)
qed

lemma set_update_cases: "kv \<in> set (AList.update k v al) \<Longrightarrow> kv = (k, v) \<or> kv \<in> set al"
  by (induction al) (auto split: if_splits)

lemma add_source_relevant:
  assumes "add_source lw cd dd kv = Inr dd'" and "\<forall>e \<in> set dd. day_relevant lw (snd e)"
  shows "\<forall>e \<in> set dd'. day_relevant lw (snd e)"
proof -
  obtain k v where kv: "kv = (k, v)" by (cases kv)
  show ?thesis
  proof (cases "k = str ''scraping_timestamp''")
    case True
    with assms kv show ?thesis by (simp add: add_source_def)
  next
    case False
    show ?thesis
    proof (cases v)
      case (Stamp s)
      with assms kv False show ?thesis by (simp add: add_source_def split: if_splits)
    next
      case (Scraped r)
      show ?thesis
      proof (cases "error r")
        case (Some e)
        with assms kv False Scraped show ?thesis by (simp add: add_source_def)
      next
        case None
        define d where "d = (case map_of dd cd of None \<Rightarrow> empty_daily | Some d \<Rightarrow> d)"
        have d: "day_relevant lw d"
        proof (cases "map_of dd cd")
          case None
          then show ?thesis by (simp add: d_def empty_daily_def day_relevant_def)
        next
          case (Some d0)
          then have "(cd, d0) \<in> set dd" by (rule map_of_SomeD)
          with assms(2) Some show ?thesis by (auto simp: d_def)
        qed
        define d' where "d' = d\<lparr>sources := sources d @
                            [case source r of None \<Rightarrow> str ''Unknown'' | Some n \<Rightarrow> n],
                         agg_headlines := agg_headlines d
                           @ clean_and_truncate_text lw (take 2 (get_list (headlines r))) 150,
                         agg_insights := agg_insights d
                           @ clean_and_truncate_text lw (take 2 (get_list (key_insights r))) 150,
                         agg_signals := agg_signals d
                           @ clean_and_truncate_text lw (take 2 (get_list (market_signals r))) 150\<rparr>"
        have d': "day_relevant lw d'"
          using d clean_and_truncate_relevant [of _ lw _ 150]
          by (auto simp: d'_def day_relevant_def)
        have "dd' = AList.update cd d' dd"
          using assms(1) kv False Scraped None
          by (simp add: add_source_def d'_def d_def Let_def)
        with d' assms(2) show ?thesis
          by (auto dest: set_update_cases)
      qed
    qed
  qed
qed

lemma aggregate_relevant:
  "aggregate lw cd dd data = Inr dd' \<Longrightarrow> \<forall>e \<in> set dd. day_relevant lw (snd e) \<Longrightarrow>
   \<forall>e \<in> set dd'. day_relevant lw (snd e)"
proof (induction data arbitrary: dd)
  case Nil
  then show ?case by simp
next
  case (Cons kv data)
  show ?case
  proof (cases "add_source lw cd dd kv")
    case (Inl e)
    with Cons.prems show ?thesis by simp
  next
    case (Inr dd1)
    with Cons.prems have "aggregate lw cd dd1 data = Inr dd'" by simp
    moreover have "\<forall>e \<in> set dd1. day_relevant lw (snd e)"
      using Inr Cons.prems(2) by (rule add_source_relevant)
    ultimately show ?thesis by (rule Cons.IH)
  qed
qed

text \<open>
  Claim C7. In the batch built from any day of the aggregation, each of the three text
  lists has at most 5 entries, and every entry has, lower-cased, a keyword of the long
  keyword list as a substring.
\<close>

theorem batch_bounded_and_relevant:
  assumes "aggregate lw cd [] data = Inr daily_data" and "kv \<in> set daily_data"
  shows "length (all_headlines (daily_batch kv)) \<le> 5
    \<and> length (all_insights (daily_batch kv)) \<le> 5
    \<and> length (all_signals (daily_batch kv)) \<le> 5
    \<and> (\<forall>x \<in> set (all_headlines (daily_batch kv)) \<union> set (all_insights (daily_batch kv))
           \<union> set (all_signals (daily_batch kv)).
         list_ex (\<lambda>keyword. contains keyword (lw x)) relevant_keywords)"
proof -
  have "\<forall>e \<in> set daily_data. day_relevant lw (snd e)"
    using assms(1) by (rule aggregate_relevant) simp
  with assms(2) have "day_relevant lw (snd kv)" by blast
  then show ?thesis
    by (cases kv) (auto simp: daily_batch_def day_relevant_def any_keyword_def dest: in_set_takeD)
qed

lemma cleaned_text_example:
  "cleaned_text (str ''Solar power  market grows in the industrial sector'')
     = str ''Solar power market grows in the industrial sector''"
  by (simp add: cleaned_text_def artifacts_def isspace_def)

lemma any_keyword_example:
  "any_keyword ascii_lower relevant_keywords
     (str ''Solar power market grows in the industrial sector'')"
  by (simp add: any_keyword_def relevant_keywords_def ascii_lower_def)

lemma aggregate_example:
  "aggregate ascii_lower (str ''2025-01-10'') []
     [(str ''canary'', Scraped \<lparr>source = Some (str ''Canary Media''),
         timestamp = Some (str ''2025-01-10T08:00:00''),
         url = Some (str ''https://www.canarymedia.com/''),
         headlines = Some [str ''Solar power  market grows in the industrial sector''],
         key_insights = Some [], market_signals = Some [], error = None\<rparr>)]
   = Inr [(str ''2025-01-10'',
        \<lparr>sources = [str ''Canary Media''],
         agg_headlines = [str ''Solar power market grows in the industrial sector''],
         agg_insights = [], agg_signals = []\<rparr>)]"
  by (simp add: add_source_def get_list_def empty_daily_def Let_def
      cleaned_text_example [simplified] any_keyword_example [simplified])

theorem batch_bounded_and_relevant_witness:
  "aggregate ascii_lower (str ''2025-01-10'') []
     [(str ''canary'', Scraped \<lparr>source = Some (str ''Canary Media''),
         timestamp = Some (str ''2025-01-10T08:00:00''),
         url = Some (str ''https://www.canarymedia.com/''),
         headlines = Some [str ''Solar power  market grows in the industrial sector''],
         key_insights = Some [], market_signals = Some [], error = None\<rparr>)]
   = Inr [(str ''2025-01-10'',
        \<lparr>sources = [str ''Canary Media''],
         agg_headlines = [str ''Solar power market grows in the industrial sector''],
         agg_insights = [], agg_signals = []\<rparr>)]
   \<and> list_ex (\<lambda>keyword. contains keyword
         (ascii_lower (str ''Solar power market grows in the industrial sector'')))
       relevant_keywords"
proof -
  have "\<forall>x \<in> set (all_headlines (daily_batch (str ''2025-01-10'',
        \<lparr>sources = [str ''Canary Media''],
         agg_headlines = [str ''Solar power market grows in the industrial sector''],
         agg_insights = [], agg_signals = []\<rparr>))) \<union> set (all_insights (daily_batch (str ''2025-01-10'',
        \<lparr>sources = [str ''Canary Media''],
         agg_headlines = [str ''Solar power market grows in the industrial sector''],
         agg_insights = [], agg_signals = []\<rparr>)))
           \<union> set (all_signals (daily_batch (str ''2025-01-10'',
        \<lparr>sources = [str ''Canary Media''],
         agg_headlines = [str ''Solar power market grows in the industrial sector''],
         agg_insights = [], agg_signals = []\<rparr>))).
         list_ex (\<lambda>keyword. contains keyword (ascii_lower x)) relevant_keywords"
    using batch_bounded_and_relevant [OF aggregate_example, of "(str ''2025-01-10'',
        \<lparr>sources = [str ''Canary Media''],
         agg_headlines = [str ''Solar power market grows in the industrial sector''],
         agg_insights = [], agg_signals = []\<rparr>)"]
    by simp
  then have "list_ex (\<lambda>keyword. contains keyword
         (ascii_lower (str ''Solar power market grows in the industrial sector'')))
       relevant_keywords"
    by (simp add: daily_batch_def)
  with aggregate_example show ?thesis by blast
qed

section \<open>The scraper: every URL fails\<close>

lemma try_urls_all_fail:
  "\<forall>u \<in> set news_urls. isl (fetch u) \<Longrightarrow>
   try_urls lw dg ik sk fetch data news_urls = data"
proof (induction news_urls)
  case Nil
  then show ?case by simp
next
  case (Cons u us)
  then show ?case by (cases "fetch u") simp_all
qed

lemma scrape_source_all_fail:
  "\<forall>u \<in> set news_urls. isl (fetch u) \<Longrightarrow>
   scrape_source lw dg name news_urls ik sk now fetch = nothing_scraped name now"
  by (simp add: scrape_source_def try_urls_all_fail nothing_scraped_def)

lemma try_urls_skip:
  "\<forall>u \<in> set failing. isl (fetch u) \<Longrightarrow>
   try_urls lw dg ik sk fetch data (failing @ rest) = try_urls lw dg ik sk fetch data rest"
proof (induction failing)
  case Nil
  then show ?case by simp
next
  case (Cons u us)
  then show ?case by (cases "fetch u") simp_all
qed

lemma scrape_source_skip:
  "\<forall>u \<in> set failing. isl (fetch u) \<Longrightarrow>
   scrape_source lw dg name (failing @ rest) ik sk now fetch
     = scrape_source lw dg name rest ik sk now fetch"
  by (simp add: scrape_source_def try_urls_skip)

lemma scrape_source_hit:
  "fetch u = Inr page \<Longrightarrow> extract_headlines lw page [] \<noteq> [] \<Longrightarrow>
   scrape_source lw dg name (u # rest) ik sk now fetch =
     \<lparr>source = Some name, timestamp = Some now, url = Some u,
      headlines = Some (take 5 (extract_headlines lw page [])),
      key_insights = Some (take 5 (extract_insights lw dg ik (get_text page))),
      market_signals = Some (take 5 (extract_signals lw sk (get_text page))),
      error = None\<rparr>"
  by (simp add: scrape_source_def Let_def)

lemma scrape_key_all_fail:
  "handled k \<Longrightarrow> \<forall>u \<in> set (source_urls k). isl (fetch u) \<Longrightarrow>
   scrape_key lw dg k now fetch = nothing_scraped (source_name k) now"
  by (auto simp: handled_def scrape_key_def source_urls_def source_name_def scrape_canary_def
      scrape_industryweek_def scrape_eia_def scrape_source_all_fail)

lemma scrape_each_entries:
  "map_of (scrape_each lw dg nows fetch data keys) k =
     (if k \<in> set keys \<and> handled k
      then Some (Scraped (scrape_key lw dg k (nows k) fetch))
      else map_of data k)"
proof (induction keys arbitrary: data)
  case Nil
  then show ?case by simp
next
  case (Cons key keys)
  show ?case
    unfolding scrape_each.simps Cons.IH
    by (auto simp: update_conv' handled_def scrape_key_def)
qed

lemma scrape_all_sources_entries:
  "k \<in> set keys \<Longrightarrow> handled k \<Longrightarrow>
   map_of (scrape_all_sources lw dg nows end_time fetch keys) k
     = Some (Scraped (scrape_key lw dg k (nows k) fetch))"
  using scrape_each_entries [of lw dg nows fetch "[]" keys k]
  by (auto simp: scrape_all_sources_def update_conv' handled_def)

text \<open>
  Claim C4, as the code has it. Whatever the other URLs and the other sources do:
  the URLs whose request fails are passed over and the scrape goes on from the next URL as
  if they were not in the list; the first URL after them whose page has a headline gives
  the result; if every URL of the list fails, the result has an empty URL and empty lists
  of headlines, insights and signals, and no key \<open>error\<close>. The run goes on: every
  configured source that has a handler gets the result of its own scrape as its entry in
  the scraped data, and that entry is the empty result for a source all of whose URLs
  fail.
\<close>

theorem all_urls_fail_is_soft:
  assumes "\<forall>u \<in> set failing. isl (fetch u)"
  shows "scrape_source lw dg name (failing @ rest) ik sk now fetch
        = scrape_source lw dg name rest ik sk now fetch
    \<and> (\<forall>page. fetch u = Inr page \<and> extract_headlines lw page [] \<noteq> [] \<longrightarrow>
          scrape_source lw dg name (failing @ u # rest) ik sk now fetch =
            \<lparr>source = Some name, timestamp = Some now, url = Some u,
             headlines = Some (take 5 (extract_headlines lw page [])),
             key_insights = Some (take 5 (extract_insights lw dg ik (get_text page))),
             market_signals = Some (take 5 (extract_signals lw sk (get_text page))),
             error = None\<rparr>)
    \<and> scrape_source lw dg name failing ik sk now fetch =
        \<lparr>source = Some name, timestamp = Some now, url = Some [], headlines = Some [],
         key_insights = Some [], market_signals = Some [], error = None\<rparr>
    \<and> (\<forall>k \<in> set keys. handled k \<longrightarrow>
          map_of (scrape_all_sources lw dg nows end_time fetch keys) k
            = Some (Scraped (scrape_key lw dg k (nows k) fetch)))
    \<and> (\<forall>k. handled k \<and> set (source_urls k) \<subseteq> set failing \<longrightarrow>
          scrape_key lw dg k now fetch =
            \<lparr>source = Some (source_name k), timestamp = Some now, url = Some [],
             headlines = Some [], key_insights = Some [], market_signals = Some [],
             error = None\<rparr>)"
proof (intro conjI allI ballI impI)
  show "scrape_source lw dg name (failing @ rest) ik sk now fetch
        = scrape_source lw dg name rest ik sk now fetch"
    using assms by (rule scrape_source_skip)
next
  fix page
  assume "fetch u = Inr page \<and> extract_headlines lw page [] \<noteq> []"
  then show "scrape_source lw dg name (failing @ u # rest) ik sk now fetch =
            \<lparr>source = Some name, timestamp = Some now, url = Some u,
             headlines = Some (take 5 (extract_headlines lw page [])),
             key_insights = Some (take 5 (extract_insights lw dg ik (get_text page))),
             market_signals = Some (take 5 (extract_signals lw sk (get_text page))),
             error = None\<rparr>"
    using scrape_source_skip [OF assms, of lw dg name "u # rest" ik sk now]
    by (simp add: scrape_source_hit)
next
  show "scrape_source lw dg name failing ik sk now fetch =
        \<lparr>source = Some name, timestamp = Some now, url = Some [], headlines = Some [],
         key_insights = Some [], market_signals = Some [], error = None\<rparr>"
    using assms by (simp add: scrape_source_all_fail nothing_scraped_def)
next
  fix k
  assume "k \<in> set keys" and "handled k"
  then show "map_of (scrape_all_sources lw dg nows end_time fetch keys) k
            = Some (Scraped (scrape_key lw dg k (nows k) fetch))"
    by (rule scrape_all_sources_entries)
next
  fix k
  assume k: "handled k \<and> set (source_urls k) \<subseteq> set failing"
  with assms have "\<forall>u \<in> set (source_urls k). isl (fetch u)" by blast
  with k show "scrape_key lw dg k now fetch =
            \<lparr>source = Some (source_name k), timestamp = Some now, url = Some [],
             headlines = Some [], key_insights = Some [], market_signals = Some [],
             error = None\<rparr>"
    by (simp add: scrape_key_all_fail nothing_scraped_def)
qed

lemma concat_map_Nil: "concat (map (\<lambda>x. []) xs) = []"
  by (induction xs) simp_all

lemma example_headline_of:
  "headline_of ascii_lower (str ''Solar power market grows'') = [str ''Solar power market grows'']"
  by (simp add: headline_of_def strip_def isspace_def any_keyword_def skip_words_def
      ascii_lower_def)

lemma example_headlines:
  "extract_headlines ascii_lower example_page [] = [str ''Solar power market grows'']"
  by (simp add: extract_headlines_def example_page_def concat_map_Nil
      example_headline_of [simplified])

lemma canary_urls_split:
  "canary_urls = [str ''https://www.canarymedia.com/'']
     @ str ''https://www.canarymedia.com/articles''
     # [str ''https://www.canarymedia.com/news'', str ''https://www.canarymedia.com/energy'']"
  by (simp add: canary_urls_def)

text \<open>
  The examples: with only its first URL down, the scraper of Canary Media returns the page
  of its second URL; with all its URLs down, it returns the empty result, while the entry
  of the source EIA in the scraped data is the result of the scrape of EIA.
\<close>

theorem all_urls_fail_is_soft_witness:
  "list_all (isl \<circ> first_url_down) [str ''https://www.canarymedia.com/'']
   \<and> url (scrape_canary ascii_lower ascii_digit (str ''2025-01-10T08:00:00'') first_url_down)
       = Some (str ''https://www.canarymedia.com/articles'')
   \<and> headlines (scrape_canary ascii_lower ascii_digit (str ''2025-01-10T08:00:00'')
        first_url_down) = Some [str ''Solar power market grows'']
   \<and> list_all (isl \<circ> canary_down) canary_urls
   \<and> scrape_key ascii_lower ascii_digit (str ''canary'') (str ''2025-01-10T08:00:00'')
        canary_down =
      \<lparr>source = Some (str ''Canary Media''), timestamp = Some (str ''2025-01-10T08:00:00''),
       url = Some [], headlines = Some [], key_insights = Some [], market_signals = Some [],
       error = None\<rparr>
   \<and> map_of (scrape_all_sources ascii_lower ascii_digit still_clock
        (str ''2025-01-10T08:00:09'') canary_down [str ''canary'', str ''eia'']) (str ''eia'')
      = Some (Scraped (scrape_key ascii_lower ascii_digit (str ''eia'') (still_clock (str ''eia''))
          canary_down))"
proof -
  have first: "\<forall>u \<in> set [str ''https://www.canarymedia.com/'']. isl (first_url_down u)"
    by (simp add: first_url_down_def)
  have page: "first_url_down (str ''https://www.canarymedia.com/articles'') = Inr example_page
      \<and> extract_headlines ascii_lower example_page [] \<noteq> []"
    by (simp add: first_url_down_def example_headlines)
  have hit: "scrape_canary ascii_lower ascii_digit (str ''2025-01-10T08:00:00'') first_url_down =
      \<lparr>source = Some (str ''Canary Media''), timestamp = Some (str ''2025-01-10T08:00:00''),
       url = Some (str ''https://www.canarymedia.com/articles''),
       headlines = Some (take 5 (extract_headlines ascii_lower example_page [])),
       key_insights = Some (take 5 (extract_insights ascii_lower ascii_digit
         [str ''energy'', str ''electricity'', str ''renewable'', str ''solar'', str ''wind'',
          str ''battery'', str ''emission'', str ''carbon'', str ''clean'', str ''transition'']
         (get_text example_page))),
       market_signals = Some (take 5 (extract_signals ascii_lower
         [str ''renewable'', str ''solar'', str ''wind'', str ''battery'',
          str ''electric vehicle'', str ''green energy'', str ''carbon'', str ''emission'',
          str ''transition'', str ''clean energy''] (get_text example_page))),
       error = None\<rparr>"
    unfolding scrape_canary_def canary_urls_split
    using all_urls_fail_is_soft [OF first] page by blast
  have down: "\<forall>u \<in> set canary_urls. isl (canary_down u)"
    by (simp add: canary_down_def)
  have canary: "handled (str ''canary'') \<and> set (source_urls (str ''canary'')) \<subseteq> set canary_urls"
    by (simp add: handled_def source_urls_def)
  have empty: "scrape_key ascii_lower ascii_digit (str ''canary'') (str ''2025-01-10T08:00:00'')
        canary_down =
      \<lparr>source = Some (source_name (str ''canary'')),
       timestamp = Some (str ''2025-01-10T08:00:00''),
       url = Some [], headlines = Some [], key_insights = Some [], market_signals = Some [],
       error = None\<rparr>"
    using all_urls_fail_is_soft [OF down] canary by blast
  have eia: "str ''eia'' \<in> set [str ''canary'', str ''eia''] \<and> handled (str ''eia'')"
    by (simp add: handled_def)
  have entry: "map_of (scrape_all_sources ascii_lower ascii_digit still_clock
        (str ''2025-01-10T08:00:09'') canary_down [str ''canary'', str ''eia'']) (str ''eia'')
      = Some (Scraped (scrape_key ascii_lower ascii_digit (str ''eia'') (still_clock (str ''eia''))
          canary_down))"
    using all_urls_fail_is_soft [OF down] eia by blast
  have "list_all (isl \<circ> first_url_down) [str ''https://www.canarymedia.com/'']"
    using first by (simp add: list_all_iff)
  moreover have "list_all (isl \<circ> canary_down) canary_urls"
    using down by (simp add: list_all_iff)
  moreover have "url (scrape_canary ascii_lower ascii_digit (str ''2025-01-10T08:00:00'')
        first_url_down) = Some (str ''https://www.canarymedia.com/articles'')"
    unfolding hit by simp
  moreover have "headlines (scrape_canary ascii_lower ascii_digit (str ''2025-01-10T08:00:00'')
        first_url_down) = Some [str ''Solar power market grows'']"
    unfolding hit by (simp add: example_headlines)
  moreover have "source_name (str ''canary'') = str ''Canary Media''"
    by (simp add: source_name_def)
  ultimately show ?thesis
    using empty entry by simp
qed

text \<open>
  The claim as the specification states it, that the result of such a scrape has the key
  \<open>error\<close>, fails on a network where every request fails.
\<close>

theorem all_urls_fail_sets_no_error:
  "list_all (isl \<circ> unreachable) canary_urls
   \<and> error (scrape_canary ascii_lower ascii_digit (str ''2025-01-10T08:00:00'') unreachable)
       = None"
  by (simp add: scrape_canary_def scrape_source_all_fail nothing_scraped_def
      unreachable_def list_all_iff)

section \<open>The parser: the two scenarios\<close>

lemma clean_insights_empty: "Key_insights r = [] \<Longrightarrow> clean_insights lw r = r"
  by (simp add: clean_insights_def)

lemma final_cleanup_empty: "Key_insights r = [] \<Longrightarrow> final_cleanup lw r = r"
  by (simp add: final_cleanup_def)

lemma normalize_signal_empty: "Signal r = [] \<Longrightarrow> normalize_signal lw r = r"
  by (simp add: normalize_signal_def)

lemma normalize_risk_empty: "Risk r = [] \<Longrightarrow> normalize_risk lw t r = r"
  by (simp add: normalize_risk_def)

text \<open>
  When the line loop has captured no narrative, no signal and no risk, only the last pass
  of the parser acts: the search for the markers in the whole response.
\<close>

lemma parse_nothing_captured:
  assumes "result (foldl (scan_line lw)
          \<lparr>result = \<lparr>Date = today, Source = src, Key_insights = [], Signal = [], Risk = []\<rparr>,
           current_section = None, section_content = []\<rparr>
          (split_sep (str [CHR 0x0A]) text)) = r"
    and "Key_insights r = []" and "Signal r = []" and "Risk r = []"
  shows "parse_analysis lw today (Some text) src =
    r\<lparr>Signal := marker_signal (lw text), Risk := marker_risk (lw text)\<rparr>"
  using assms
  by (simp add: parse_analysis_def parse_body_Some clean_insights_empty final_cleanup_empty
      normalize_signal_empty normalize_risk_empty marker_fallback_def Let_def)

lemma scenario_lines:
  "split_sep (str [CHR 0x0A]) scenario_text =
     [str ''Date: 2025-01-10'', str ''Key insights: Strong growth'',
      str ''Signal: '' @ [green_circle] @ str '' Positive reasoning'',
      str ''Risk: risk: high reasoning'']"
  by (simp add: scenario_text_def green_circle_def)

lemma scan_date:
  "scan_line ascii_lower st (str ''Date: 2025-01-10'')
     = st\<lparr>result := (result st)\<lparr>Date := str ''2025-01-10''\<rparr>\<rparr>"
  by (simp add: scan_line_def strip_def isspace_def ascii_lower_def)

lemma scan_insights:
  "scan_line ascii_lower st (str ''Key insights: Strong growth'')
     = st\<lparr>current_section := Some SecKeyInsights, section_content := []\<rparr>"
  by (simp add: scan_line_def strip_def isspace_def ascii_lower_def)

lemma scan_signal:
  "scan_line ascii_lower st (str ''Signal: '' @ [green_circle] @ str '' Positive reasoning'')
     = st\<lparr>current_section := Some SecSignal, section_content := []\<rparr>"
  by (simp add: scan_line_def strip_def isspace_def ascii_lower_def green_circle_def)

lemma scan_risk:
  "scan_line ascii_lower st (str ''Risk: risk: high reasoning'')
     = st\<lparr>current_section := Some SecRisk, section_content := []\<rparr>"
  by (simp add: scan_line_def strip_def isspace_def ascii_lower_def)

lemma scenario_scan:
  "result (foldl (scan_line ascii_lower)
          \<lparr>result = \<lparr>Date = today, Source = src, Key_insights = [], Signal = [], Risk = []\<rparr>,
           current_section = None, section_content = []\<rparr>
          (split_sep (str [CHR 0x0A]) scenario_text))
   = \<lparr>Date = str ''2025-01-10'', Source = src, Key_insights = [], Signal = [], Risk = []\<rparr>"
  by (simp only: scenario_lines foldl_Cons foldl_Nil scan_date scan_insights scan_signal scan_risk)
     simp

lemma scenario_lower:
  "ascii_lower scenario_text =
     str ''date: 2025-01-10'' @ [10] @ str ''key insights: strong growth'' @ [10]
     @ str ''signal: '' @ [green_circle] @ str '' positive reasoning'' @ [10]
     @ str ''risk: risk: high reasoning''"
  by (simp add: scenario_text_def ascii_lower_def green_circle_def)

lemma scenario_marker_signal: "marker_signal (ascii_lower scenario_text) = str ''Positive''"
  unfolding scenario_lower by (simp add: marker_signal_def green_circle_def)

lemma scenario_marker_risk: "marker_risk (ascii_lower scenario_text) = str ''High''"
  unfolding scenario_lower by (simp add: marker_risk_def green_circle_def)

text \<open>
  Claim C2, on the code. The response in the requested format is parsed to the date
  \<open>2025-01-10\<close>, the signal Positive and the risk High, but to the empty narrative: a
  header line only opens its section, and the text that follows the header on the same
  line is captured for no section but the date. Signal and risk are found by the last
  pass, in the whole response.
\<close>

theorem scenario_narrative_lost:
  "parse_analysis ascii_lower today (Some scenario_text) src =
     \<lparr>Date = str ''2025-01-10'', Source = src, Key_insights = [], Signal = str ''Positive'',
      Risk = str ''High''\<rparr>"
proof -
  have "parse_analysis ascii_lower today (Some scenario_text) src =
      \<lparr>Date = str ''2025-01-10'', Source = src, Key_insights = [], Signal = [], Risk = []\<rparr>
      \<lparr>Signal := marker_signal (ascii_lower scenario_text),
       Risk := marker_risk (ascii_lower scenario_text)\<rparr>"
    by (rule parse_nothing_captured [OF scenario_scan]) simp_all
  then show ?thesis
    by (simp add: scenario_marker_signal scenario_marker_risk)
qed

lemma headerless_lines: "split_sep (str [CHR 0x0A]) headerless_text = [headerless_text]"
  by (simp add: headerless_text_def)

lemma scan_headerless:
  "current_section st = None \<Longrightarrow> scan_line ascii_lower st headerless_text = st"
  by (simp add: scan_line_def headerless_text_def strip_def isspace_def ascii_lower_def)

lemma headerless_scan:
  "result (foldl (scan_line ascii_lower)
          \<lparr>result = \<lparr>Date = today, Source = src, Key_insights = [], Signal = [], Risk = []\<rparr>,
           current_section = None, section_content = []\<rparr>
          (split_sep (str [CHR 0x0A]) headerless_text))
   = \<lparr>Date = today, Source = src, Key_insights = [], Signal = [], Risk = []\<rparr>"
  by (simp only: headerless_lines foldl_Cons foldl_Nil) (simp add: scan_headerless)

lemma headerless_marker_signal: "marker_signal (ascii_lower headerless_text) = str ''Neutral''"
  by (simp add: marker_signal_def headerless_text_def ascii_lower_def green_circle_def
      red_circle_def)

lemma headerless_marker_risk: "marker_risk (ascii_lower headerless_text) = str ''Medium''"
  by (simp add: marker_risk_def headerless_text_def ascii_lower_def)

text \<open>
  Claim C3, on the code. The response without section headers is parsed to the risk
  Medium, but to the signal Neutral and the empty narrative: the search for the keywords
  in the whole response stands under the test that a Risk section was captured, so it does
  not run here, and the search for the markers finds \<open>negative\<close> only next to
  \<open>signal:\<close>.
\<close>

theorem headerless_signal_neutral:
  "parse_analysis ascii_lower today (Some headerless_text) src =
     \<lparr>Date = today, Source = src, Key_insights = [], Signal = str ''Neutral'',
      Risk = str ''Medium''\<rparr>"
proof -
  have "parse_analysis ascii_lower today (Some headerless_text) src =
      \<lparr>Date = today, Source = src, Key_insights = [], Signal = [], Risk = []\<rparr>
      \<lparr>Signal := marker_signal (ascii_lower headerless_text),
       Risk := marker_risk (ascii_lower headerless_text)\<rparr>"
    by (rule parse_nothing_captured [OF headerless_scan]) simp_all
  then show ?thesis
    by (simp add: headerless_marker_signal headerless_marker_risk)
qed

section \<open>Words, sentences and the word limit\<close>













lemma wc_dropWhile_space: "wc False (dropWhile isspace s) = wc False s"
  by (induction s) auto

lemma wc_append_spaces: "\<forall>c \<in> set ys. isspace c \<Longrightarrow> wc b (xs @ ys) = wc b xs"
proof (induction xs arbitrary: b)
  case Nil
  then show ?case by (induction ys arbitrary: b) auto
next
  case (Cons c xs)
  then show ?case by auto
qed










































section \<open>The parser: the narrative\<close>

































end
